theory Spec2Isabelle
  imports Complex_Main
begin

section \<open>Go standard-library functions used by the collector\<close>

text \<open>
  Go strings are byte sequences; they are modelled as \<open>string\<close> (a list of 8-bit
  characters). The functions of this section are the ones of packages \<open>strings\<close>,
  \<open>strconv\<close> and \<open>regexp\<close> that \<open>zookeeper.go\<close> calls, written after their
  documented behaviour.
\<close>

text \<open>\<open>strings.HasPrefix(s, prefix)\<close>.\<close>

fun HasPrefix :: "string \<Rightarrow> string \<Rightarrow> bool" where
  "HasPrefix s [] = True"
| "HasPrefix [] (p # ps) = False"
| "HasPrefix (c # cs) (p # ps) = (c = p \<and> HasPrefix cs ps)"

text \<open>\<open>strings.Contains(s, substr)\<close>: \<open>substr\<close> occurs somewhere within \<open>s\<close>.\<close>

fun Contains :: "string \<Rightarrow> string \<Rightarrow> bool" where
  "Contains [] sub = (sub = [])"
| "Contains (c # cs) sub = (HasPrefix (c # cs) sub \<or> Contains cs sub)"

text \<open>
  \<open>strings.Split(s, sep)\<close> for a one-byte separator: the pieces between the
  separators; the result always has at least one element (\<open>Split("", sep)\<close> is
  \<open>[""]\<close>).
\<close>

fun Split :: "string \<Rightarrow> char \<Rightarrow> string list" where
  "Split [] sep = [[]]"
| "Split (c # cs) sep =
     (if c = sep then [] # Split cs sep
      else (case Split cs sep of [] \<Rightarrow> [[c]] | l # ls \<Rightarrow> (c # l) # ls))"

text \<open>
  \<open>strings.Fields(s)\<close> splits around runs of white space as defined by
  \<open>unicode.IsSpace\<close>. \<open>spaceLen s\<close> is the width in bytes of the white-space rune
  that starts \<open>s\<close>, or 0 when \<open>s\<close> does not start with one: the six ASCII spaces
  and the UTF-8 encodings of U+0085, U+00A0, U+1680, U+2000..U+200A, U+2028, U+2029,
  U+202F, U+205F and U+3000. Their first bytes are never continuation bytes, so
  scanning bytes finds exactly the runes Go decodes.
\<close>

definition asciiSpace :: "char \<Rightarrow> bool" where
  "asciiSpace c = (c \<in> set [CHR 0x09, CHR 0x0A, CHR 0x0B, CHR 0x0C, CHR 0x0D, CHR 0x20])"

definition spaceLen :: "string \<Rightarrow> nat" where
  "spaceLen s =
     (if s \<noteq> [] \<and> asciiSpace (hd s) then 1
      else if take 2 s \<in> set [[CHR 0xC2, CHR 0x85], [CHR 0xC2, CHR 0xA0]] then 2
      else if take 2 s = [CHR 0xE2, CHR 0x80] \<and> length s \<ge> 3
              \<and> (let c = (of_char (s ! 2) :: nat)
                  in (0x80 \<le> c \<and> c \<le> 0x8A) \<or> c = 0xA8 \<or> c = 0xA9 \<or> c = 0xAF) then 3
      else if take 3 s \<in> set [[CHR 0xE1, CHR 0x9A, CHR 0x80], [CHR 0xE2, CHR 0x81, CHR 0x9F],
                               [CHR 0xE3, CHR 0x80, CHR 0x80]] then 3
      else 0)"

text \<open>
  The scan: \<open>skip\<close> counts the bytes still to drop of a multi-byte white-space rune,
  \<open>cur\<close> is the field being read.
\<close>

fun Fields_scan :: "nat \<Rightarrow> string \<Rightarrow> string \<Rightarrow> string list" where
  "Fields_scan skip cur [] = (if cur = [] then [] else [cur])"
| "Fields_scan (Suc k) cur (c # cs) = Fields_scan k cur cs"
| "Fields_scan 0 cur (c # cs) =
     (let n = spaceLen (c # cs)
      in if n = 0 then Fields_scan 0 (cur @ [c]) cs
         else (if cur = [] then [] else [cur]) @ Fields_scan (n - 1) [] cs)"

definition Fields :: "string \<Rightarrow> string list" where
  "Fields s = Fields_scan 0 [] s"

text \<open>
  \<open>strconv.Atoi(s)\<close>: an optional sign and one or more decimal digits, in the range of
  a 64-bit \<open>int\<close>; \<open>None\<close> stands for the returned error (syntax or range).
\<close>

definition isDecimal :: "char \<Rightarrow> bool" where
  "isDecimal c = (c \<in> set ''0123456789'')"

definition Atoi :: "string \<Rightarrow> int option" where
  "Atoi s =
     (let neg = (s \<noteq> [] \<and> hd s = CHR ''-'');
          ds = (if s \<noteq> [] \<and> (hd s = CHR ''-'' \<or> hd s = CHR ''+'') then tl s else s)
      in if ds = [] \<or> \<not> list_all isDecimal ds then None
         else (let n = foldl (\<lambda>a c. 10 * a + (int (of_char c) - 48)) 0 ds;
                   v = (if neg then - n else n)
               in if v < - (2 ^ 63) \<or> 2 ^ 63 \<le> v then None else Some v))"

text \<open>
  \<open>strings.NewReplacer("-", "_", ".", "_").Replace\<close>: every byte \<open>-\<close> or \<open>.\<close>
  becomes \<open>_\<close>.
\<close>

definition metricNameReplacer :: "string \<Rightarrow> string" where
  "metricNameReplacer s = map (\<lambda>c. if c = CHR ''-'' \<or> c = CHR ''.'' then CHR ''_'' else c) s"

subsection \<open>The three regular expressions\<close>

text \<open>
  Go's \<open>regexp\<close> has leftmost-first (backtracking) semantics; \<open>.\<close> does not match a
  newline and \<open>$\<close> matches only at the end of the text.

  \<open>dotStarThen c acc s\<close> matches \<open>.*\<close> followed by the literal byte \<open>c\<close> at the head
  of \<open>s\<close>: the greedy \<open>.*\<close> first tries to take one more byte and falls back to
  stopping here. It returns the text taken by \<open>.*\<close> (after \<open>acc\<close>).
\<close>

fun dotStarThen :: "char \<Rightarrow> string \<Rightarrow> string \<Rightarrow> string option" where
  "dotStarThen c acc [] = None"
| "dotStarThen c acc (x # xs) =
     (case (if x \<noteq> CHR 0x0A then dotStarThen c (acc @ [x]) xs else None) of
        Some g \<Rightarrow> Some g
      | None \<Rightarrow> (if x = c then Some acc else None))"

text \<open>
  \<open>regexp.MustCompile(`{(.*)}`).FindStringSubmatch\<close>: the whole match and group 1 at the
  leftmost position where the expression matches, \<open>[]\<close> (nil) when there is none.
\<close>

fun labelsRE :: "string \<Rightarrow> string list" where
  "labelsRE [] = []"
| "labelsRE (x # xs) =
     (case (if x = CHR ''{'' then dotStarThen (CHR ''}'') [] xs else None) of
        Some g \<Rightarrow> [[CHR ''{''] @ g @ [CHR ''}''], g]
      | None \<Rightarrow> labelsRE xs)"

text \<open>
  \<open>regexp.MustCompile(`(.*)\=(\".*\")`).FindStringSubmatch\<close>. \<open>labelRE_at acc s\<close> is
  the match anchored at one start position, with \<open>acc\<close> the text group 1 has taken:
  groups 1 and 2.
\<close>

fun labelRE_at :: "string \<Rightarrow> string \<Rightarrow> (string \<times> string) option" where
  "labelRE_at acc [] = None"
| "labelRE_at acc (x # xs) =
     (case (if x \<noteq> CHR 0x0A then labelRE_at (acc @ [x]) xs else None) of
        Some m \<Rightarrow> Some m
      | None \<Rightarrow>
          (if x = CHR ''='' \<and> xs \<noteq> [] \<and> hd xs = CHR 0x22
           then (case dotStarThen (CHR 0x22) [] (tl xs) of
                   Some g \<Rightarrow> Some (acc, [CHR 0x22] @ g @ [CHR 0x22])
                 | None \<Rightarrow> None)
           else None))"

fun labelRE :: "string \<Rightarrow> string list" where
  "labelRE [] = []"
| "labelRE (x # xs) =
     (case labelRE_at [] (x # xs) of
        Some (k, v) \<Rightarrow> [k @ [CHR ''=''] @ v, k, v]
      | None \<Rightarrow> labelRE xs)"

text \<open>
  \<open>versionRE = ^([0-9]+\.[0-9]+\.[0-9]+).*$\<close>. \<open>versionRE_group\<close> is group 1 of the
  match, when there is one: each \<open>[0-9]+\<close> takes a maximal non-empty run of digits (a
  shorter run would be followed by a digit, not by the dot), and \<open>.*$\<close> must reach
  the end of the text without meeting a newline.
\<close>

definition versionRE_group :: "string \<Rightarrow> string option" where
  "versionRE_group s =
     (let d1 = takeWhile isDecimal s; r1 = dropWhile isDecimal s
      in if d1 = [] \<or> r1 = [] \<or> hd r1 \<noteq> CHR ''.'' then None
         else (let d2 = takeWhile isDecimal (tl r1); r2 = dropWhile isDecimal (tl r1)
               in if d2 = [] \<or> r2 = [] \<or> hd r2 \<noteq> CHR ''.'' then None
                  else (let d3 = takeWhile isDecimal (tl r2); r3 = dropWhile isDecimal (tl r2)
                        in if d3 = [] \<or> CHR 0x0A \<in> set r3 then None
                           else Some (d1 @ ''.'' @ d2 @ ''.'' @ d3))))"

text \<open>\<open>versionRE.ReplaceAllString(value, "$1")\<close>: the expression is anchored at both
  ends, so the only match is the whole text, replaced by group 1.\<close>

definition versionRE_ReplaceAllString :: "string \<Rightarrow> string" where
  "versionRE_ReplaceAllString s = (case versionRE_group s of Some g \<Rightarrow> g | None \<Rightarrow> s)"

section \<open>Data model\<close>

text \<open>
  The value handed to \<open>inputs.NewSample\<close> is an \<open>interface{}\<close>: the collector
  passes integer constants, the decimal text of a stats line, and the elapsed seconds.
\<close>

datatype sval = IntV int | StrV string | FloatV real

type_synonym tags = "string \<rightharpoonup> string"

text \<open>
  A measurement as the spec's data model has it, \<open>(name, value, tags)\<close>: the metric
  name, the value and the tag maps in the order the caller gave them (the global tags
  first, then the tags of the measurement kind).
\<close>

record sample =
  metric :: string
  val :: sval
  labels :: "tags list"

text \<open>
  Modelled from the spec: \<open>inputs.NewSample\<close> (package \<open>inputs\<close>) is not among the
  sources. Following the spec's Measurement and its sink interface
  \<open>emit(name, value, tags)\<close>, it builds the sample from its arguments as they are.
\<close>

definition NewSample :: "string \<Rightarrow> sval \<Rightarrow> tags list \<Rightarrow> sample" where
  "NewSample name v ls = \<lparr>metric = name, val = v, labels = ls\<rparr>"

text \<open>One constructor for each \<open>log.Printf\<close>/\<open>log.Println\<close> call site, with its arguments.\<close>

datatype connect_error =
    ResolveFailed string string string  \<comment> \<open>cluster, host, cause\<close>
  | TLSInitFailed string
  | DialFailed string

datatype logline =
    LogConnectError string connect_error  \<comment> \<open>\<open>"E! :"+zkHost, "err:", err\<close>\<close>
  | LogCommandNotAllowed string string  \<comment> \<open>\<open>commandNotAllowedTmpl\<close>: command, remote address\<close>
  | LogExecFailed string  \<comment> \<open>\<open>E! failed to exec Zookeeper command:\<close> command\<close>
  | LogReadFailed string string string  \<comment> \<open>command, remote address, error\<close>
  | LogNotDigit string string  \<comment> \<open>\<open>warning: skipping metric\<close> key, value\<close>

text \<open>A run-time panic of the Go program: an index outside a slice (index, length).\<close>

datatype panic = IndexOutOfRange nat nat

text \<open>
  What a task writes to: the shared sample list (\<open>PushFront\<close> puts a sample at the
  head) and the log (newest line last).
\<close>

record sink =
  slist :: "sample list"
  logs :: "logline list"

definition PushFront :: "sample \<Rightarrow> sink \<Rightarrow> sink" where
  "PushFront x st = st\<lparr>slist := x # slist st\<rparr>"

definition logPrint :: "logline \<Rightarrow> sink \<Rightarrow> sink" where
  "logPrint l st = st\<lparr>logs := logs st @ [l]\<rparr>"

text \<open>
  An open connection, as far as one command sees it: whether \<open>Write\<close> fails, the bytes
  \<open>ReadAll\<close> gets before the stream ends or fails, whether it fails, and the remote
  address.
\<close>

record conn =
  write_err :: "string option"
  read_data :: string
  read_err :: "string option"
  RemoteAddr :: string

record Instance =
  Addresses :: string
  Timeout :: int
  ClusterName :: string
  Labels :: tags
  UseTLS :: bool
  TLSConfig_err :: "string option"  \<comment> \<open>the error of \<open>i.TLSConfig()\<close>, if any\<close>

text \<open>The network at the moment of one connection attempt.\<close>

record network =
  ResolveTCPAddr :: "string \<Rightarrow> string + string"
  Dial :: "string \<Rightarrow> string + conn"
  DialTLS :: "string \<Rightarrow> string + conn"

definition cmdNotExecutedSffx :: string where
  "cmdNotExecutedSffx = ''is not executed because it is not in the whitelist.''"

definition instanceNotServingMessage :: string where
  "instanceNotServingMessage = ''This ZooKeeper instance is not currently serving requests''"

section \<open>The collector\<close>

definition ZkConnect :: "Instance \<Rightarrow> network \<Rightarrow> string \<Rightarrow> connect_error + conn" where
  "ZkConnect i net host =
     (case ResolveTCPAddr net host of
        Inl err \<Rightarrow> Inl (ResolveFailed (ClusterName i) host err)
      | Inr tcpaddr \<Rightarrow>
          if \<not> UseTLS i then
            (case Dial net tcpaddr of Inl err \<Rightarrow> Inl (DialFailed err) | Inr c \<Rightarrow> Inr c)
          else
            (case TLSConfig_err i of
               Some err \<Rightarrow> Inl (TLSInitFailed err)
             | None \<Rightarrow>
                 (case DialTLS net tcpaddr of Inl err \<Rightarrow> Inl (DialFailed err) | Inr c \<Rightarrow> Inr c)))"

text \<open>
  \<open>sendZookeeperCmd\<close> returns a plain string: what \<open>ReadAll\<close> has read. A failed write
  and a failed read are logged and nothing else.
\<close>

definition sendZookeeperCmd :: "conn \<Rightarrow> string \<Rightarrow> sink \<Rightarrow> string \<times> sink" where
  "sendZookeeperCmd c cmd st =
     (let st1 = (case write_err c of Some err \<Rightarrow> logPrint (LogExecFailed cmd) st | None \<Rightarrow> st);
          st2 = (case read_err c of
                   Some err \<Rightarrow> logPrint (LogReadFailed cmd (RemoteAddr c) err) st1
                 | None \<Rightarrow> st1)
      in (read_data c, st2))"

text \<open>
  \<open>isDigit\<close>: \<open>strconv.Atoi\<close> succeeds, or else \<open>strconv.ParseFloat(in, 64)\<close> does.
  Whether \<open>ParseFloat\<close> accepts a text is the parameter \<open>pf\<close>.
\<close>

definition isDigit :: "(string \<Rightarrow> bool) \<Rightarrow> string \<Rightarrow> bool" where
  "isDigit pf inp = (case Atoi inp of None \<Rightarrow> pf inp | Some n \<Rightarrow> True)"

text \<open>The loop of \<open>parseLabels\<close> over the comma-separated pieces.\<close>

fun parseLabels_loop :: "string list \<Rightarrow> tags \<Rightarrow> tags" where
  "parseLabels_loop [] lbls = lbls"
| "parseLabels_loop (labelStr # rest) lbls =
     (let m = labelRE labelStr
      in if length m = 3 then parseLabels_loop rest (lbls(m ! 1 \<mapsto> m ! 2))
         else parseLabels_loop rest lbls)"

definition parseLabels :: "string \<Rightarrow> tags" where
  "parseLabels inp =
     (let matchLables = labelsRE inp
      in if length matchLables > 1
         then parseLabels_loop (Split (matchLables ! 1) (CHR '','')) Map.empty
         else Map.empty)"

text \<open>
  The body of the loop of \<open>gatherMntrResult\<close> for one non-empty line. \<open>kv[0]\<close> and
  \<open>kv[1]\<close> are read without a check of \<open>len(kv)\<close>: with fewer than two fields the
  read panics.
\<close>

definition gatherMntrResult_line ::
  "(string \<Rightarrow> bool) \<Rightarrow> tags \<Rightarrow> string \<Rightarrow> sink \<Rightarrow> sink \<times> panic option" where
  "gatherMntrResult_line pf globalTags l st =
     (case Fields l of
        [] \<Rightarrow> (st, Some (IndexOutOfRange 0 0))
      | [key] \<Rightarrow> (st, Some (IndexOutOfRange 1 1))
      | key # value # others \<Rightarrow>
          if key = ''zk_server_state'' then
            (if value = ''leader''
             then (PushFront (NewSample ''zk_server_leader'' (IntV 1) [globalTags]) st, None)
             else (PushFront (NewSample ''zk_server_leader'' (IntV 0) [globalTags]) st, None))
          else if key = ''zk_version'' then
            (let version = versionRE_ReplaceAllString value
             in (PushFront (NewSample ''zk_version'' (IntV 1)
                             [globalTags, [''version'' \<mapsto> version]]) st, None))
          else if key = ''zk_peer_state'' then
            (PushFront (NewSample ''zk_peer_state'' (IntV 1)
                          [globalTags, [''state'' \<mapsto> value]]) st, None)
          else if \<not> isDigit pf value then
            (logPrint (LogNotDigit key value) st, None)
          else
            (let k = metricNameReplacer key
             in if Contains k ''{''
                then (PushFront (NewSample k (StrV value) [globalTags, parseLabels k]) st, None)
                else (PushFront (NewSample k (StrV value) [globalTags]) st, None)))"

fun gatherMntrResult_loop ::
  "(string \<Rightarrow> bool) \<Rightarrow> tags \<Rightarrow> string list \<Rightarrow> sink \<Rightarrow> sink \<times> panic option" where
  "gatherMntrResult_loop pf globalTags [] st = (st, None)"
| "gatherMntrResult_loop pf globalTags (l # ls) st =
     (if l = [] then gatherMntrResult_loop pf globalTags ls st
      else (case gatherMntrResult_line pf globalTags l st of
              (st', Some p) \<Rightarrow> (st', Some p)
            | (st', None) \<Rightarrow> gatherMntrResult_loop pf globalTags ls st'))"

text \<open>
  \<open>gatherMntrResult\<close>. The result is the sink after the call and the panic that ended
  it, if any. The parameter \<open>ins\<close> of the source is not used by it.
\<close>

definition gatherMntrResult ::
  "(string \<Rightarrow> bool) \<Rightarrow> conn \<Rightarrow> tags \<Rightarrow> sink \<Rightarrow> sink \<times> panic option" where
  "gatherMntrResult pf c globalTags st0 =
     (let (res, st) = sendZookeeperCmd c ''mntr'' st0;
          lines = Split res (CHR 0x0A)
      in case lines of
           [] \<Rightarrow> (st, Some (IndexOutOfRange 0 0))
         | l0 # ls \<Rightarrow>
             if Contains l0 cmdNotExecutedSffx then
               (logPrint (LogCommandNotAllowed ''mntr'' (RemoteAddr c))
                  (PushFront (NewSample ''zk_up'' (IntV 0) [globalTags]) st), None)
             else
               (let st1 = PushFront (NewSample ''zk_up'' (IntV 1) [globalTags]) st
                in if l0 = instanceNotServingMessage
                   then (PushFront (NewSample ''zk_server_leader'' (IntV 1) [globalTags]) st1, None)
                   else gatherMntrResult_loop pf globalTags lines st1))"

definition gatherRuokResult :: "conn \<Rightarrow> tags \<Rightarrow> sink \<Rightarrow> sink" where
  "gatherRuokResult c globalTags st0 =
     (let (res, st) = sendZookeeperCmd c ''ruok'' st0
      in if res = ''imok'' then PushFront (NewSample ''zk_ruok'' (IntV 1) [globalTags]) st
         else
           (let st1 = (if Contains res cmdNotExecutedSffx
                       then logPrint (LogCommandNotAllowed ''ruok'' (RemoteAddr c)) st
                       else st)
            in PushFront (NewSample ''zk_ruok'' (IntV 0) [globalTags]) st1))"

text \<open>
  \<open>gatherOnce\<close> for one host. \<open>net1\<close> and \<open>net2\<close> are the network at the first and at
  the second connection attempt, \<open>use\<close> is what \<open>time.Since(begun).Seconds()\<close> reads
  when the deferred function runs. The deferred push of \<open>zk_scrape_use_seconds\<close> runs
  on every way out of the function, a panic included; closing the connections and
  \<open>wg.Done\<close> leave the sink as it is.
\<close>

definition gatherOnce_tags :: "Instance \<Rightarrow> string \<Rightarrow> tags" where
  "gatherOnce_tags ins zkHost =
     [''zk_host'' \<mapsto> zkHost, ''zk_cluster'' \<mapsto> ClusterName ins] ++ Labels ins"

definition gatherOnce ::
  "(string \<Rightarrow> bool) \<Rightarrow> Instance \<Rightarrow> network \<Rightarrow> network \<Rightarrow> real \<Rightarrow> string \<Rightarrow> sink
     \<Rightarrow> sink \<times> panic option" where
  "gatherOnce pf ins net1 net2 use zkHost st =
     (let tags = gatherOnce_tags ins zkHost;
          deferred = PushFront (NewSample ''zk_scrape_use_seconds'' (FloatV use) [tags])
      in case ZkConnect ins net1 zkHost of
           Inl err \<Rightarrow>
             (deferred (logPrint (LogConnectError zkHost err)
                          (PushFront (NewSample ''zk_up'' (IntV 0) [tags]) st)), None)
         | Inr c \<Rightarrow>
             (case gatherMntrResult pf c tags st of
                (st1, Some p) \<Rightarrow> (deferred st1, Some p)
              | (st1, None) \<Rightarrow>
                  (case ZkConnect ins net2 zkHost of
                     Inl err \<Rightarrow>
                       (deferred (logPrint (LogConnectError zkHost err)
                                    (PushFront (NewSample ''zk_ruok'' (IntV 0) [tags]) st1)), None)
                   | Inr ruokConn \<Rightarrow> (deferred (gatherRuokResult ruokConn tags st1), None))))"

section \<open>The spec's words\<close>


section \<open>Helper lemmas\<close>

subsection \<open>The transport and the head of the stats parser\<close>

lemma sendZookeeperCmd_reply: "fst (sendZookeeperCmd c cmd st) = read_data c"
  by (simp add: sendZookeeperCmd_def Let_def)

lemma sendZookeeperCmd_slist: "slist (snd (sendZookeeperCmd c cmd st)) = slist st"
  by (simp add: sendZookeeperCmd_def Let_def logPrint_def split: option.splits)

lemma sendZookeeperCmd_logs:
  "logs (snd (sendZookeeperCmd c cmd st)) =
     logs st @ (case write_err c of Some err \<Rightarrow> [LogExecFailed cmd] | None \<Rightarrow> [])
             @ (case read_err c of Some err \<Rightarrow> [LogReadFailed cmd (RemoteAddr c) err] | None \<Rightarrow> [])"
  by (simp add: sendZookeeperCmd_def Let_def logPrint_def split: option.splits)

lemma Split_nonempty: "Split s sep \<noteq> []"
  by (induction s) (auto split: list.splits)

lemma gatherMntrResult_unfold:
  "gatherMntrResult pf c g st0 =
     (let st = snd (sendZookeeperCmd c ''mntr'' st0);
          lines = Split (read_data c) (CHR 0x0A)
      in if Contains (hd lines) cmdNotExecutedSffx then
               (logPrint (LogCommandNotAllowed ''mntr'' (RemoteAddr c))
                  (PushFront (NewSample ''zk_up'' (IntV 0) [g]) st), None)
         else if hd lines = instanceNotServingMessage
           then (PushFront (NewSample ''zk_server_leader'' (IntV 1) [g])
                  (PushFront (NewSample ''zk_up'' (IntV 1) [g]) st), None)
           else gatherMntrResult_loop pf g lines (PushFront (NewSample ''zk_up'' (IntV 1) [g]) st))"
proof -
  obtain l0 ls where sp: "Split (read_data c) (CHR 0x0A) = l0 # ls"
    using Split_nonempty [of "read_data c" "CHR 0x0A"] by (cases "Split (read_data c) (CHR 0x0A)") auto
  obtain st where eq: "sendZookeeperCmd c ''mntr'' st0 = (read_data c, st)"
    using sendZookeeperCmd_reply [of c "''mntr''" st0] by (cases "sendZookeeperCmd c ''mntr'' st0") simp
  show ?thesis
    by (simp add: gatherMntrResult_def eq Let_def sp)
qed

subsection \<open>One line and the loop\<close>

lemma gatherMntrResult_line_panics:
  "length (Fields l) < 2 \<Longrightarrow>
     gatherMntrResult_line pf g l st
       = (st, Some (IndexOutOfRange (length (Fields l)) (length (Fields l))))"
  by (cases "Fields l" rule: list.exhaust; cases "tl (Fields l)")
     (auto simp: gatherMntrResult_line_def)

lemma gatherMntrResult_line_no_panic:
  "2 \<le> length (Fields l) \<Longrightarrow> snd (gatherMntrResult_line pf g l st) = None"
  by (auto simp: gatherMntrResult_line_def Let_def split: list.splits)

lemma gatherMntrResult_line_keeps:
  "set (slist st) \<subseteq> set (slist (fst (gatherMntrResult_line pf g l st)))"
  by (auto simp: gatherMntrResult_line_def Let_def PushFront_def logPrint_def split: list.splits)

lemma gatherMntrResult_line_server_state:
  "Fields l = ''zk_server_state'' # value # others \<Longrightarrow>
     gatherMntrResult_line pf g l st
       = (PushFront (NewSample ''zk_server_leader'' (IntV (if value = ''leader'' then 1 else 0)) [g]) st, None)"
  by (simp add: gatherMntrResult_line_def)

lemma gatherMntrResult_loop_complete:
  "\<forall>l\<in>set ls. l = [] \<or> 2 \<le> length (Fields l) \<Longrightarrow>
     snd (gatherMntrResult_loop pf g ls st) = None
     \<and> set (slist st) \<subseteq> set (slist (fst (gatherMntrResult_loop pf g ls st)))"
proof (induction ls arbitrary: st)
  case Nil
  then show ?case by simp
next
  case (Cons l ls)
  show ?case
  proof (cases "l = []")
    case True
    with Cons show ?thesis by simp
  next
    case False
    obtain st' where st': "gatherMntrResult_line pf g l st = (st', None)"
      using gatherMntrResult_line_no_panic [of l pf g st] Cons.prems False
      by (cases "gatherMntrResult_line pf g l st") auto
    have keep: "set (slist st) \<subseteq> set (slist st')"
      using gatherMntrResult_line_keeps [of st pf g l] st' by simp
    from Cons.prems have "\<forall>l\<in>set ls. l = [] \<or> 2 \<le> length (Fields l)" by simp
    from Cons.IH [OF this, of st'] keep False st' show ?thesis by auto
  qed
qed

lemma gatherMntrResult_loop_server_state:
  assumes "\<forall>l\<in>set ls. l = [] \<or> 2 \<le> length (Fields l)"
    and "l \<in> set ls" and "Fields l = ''zk_server_state'' # value # others"
  shows "NewSample ''zk_server_leader'' (IntV (if value = ''leader'' then 1 else 0)) [g]
           \<in> set (slist (fst (gatherMntrResult_loop pf g ls st)))"
  using assms
proof (induction ls arbitrary: st)
  case Nil
  then show ?case by simp
next
  case (Cons x xs)
  have rest: "\<forall>l\<in>set xs. l = [] \<or> 2 \<le> length (Fields l)" using Cons.prems(1) by simp
  show ?case
  proof (cases "x = []")
    case True
    with Cons.prems have "l \<in> set xs" by (auto simp: Fields_def)
    from Cons.IH [OF rest this Cons.prems(3)] True show ?thesis by simp
  next
    case False
    obtain st' where st': "gatherMntrResult_line pf g x st = (st', None)"
      using gatherMntrResult_line_no_panic [of x pf g st] Cons.prems(1) False
      by (cases "gatherMntrResult_line pf g x st") auto
    show ?thesis
    proof (cases "l = x")
      case True
      then have "st' = PushFront (NewSample ''zk_server_leader'' (IntV (if value = ''leader'' then 1 else 0)) [g]) st"
        using gatherMntrResult_line_server_state [of x "value" others pf g st] Cons.prems(3) st' by simp
      then have "NewSample ''zk_server_leader'' (IntV (if value = ''leader'' then 1 else 0)) [g] \<in> set (slist st')"
        by (simp add: PushFront_def)
      moreover have "set (slist st') \<subseteq> set (slist (fst (gatherMntrResult_loop pf g xs st')))"
        using gatherMntrResult_loop_complete [OF rest] by blast
      ultimately show ?thesis using False st' by auto
    next
      case neq: False
      with Cons.prems have "l \<in> set xs" by simp
      from Cons.IH [OF rest this Cons.prems(3), of st'] False st' show ?thesis by simp
    qed
  qed
qed

subsection \<open>The regular expressions\<close>

text \<open>
  \<open>.*\<close> followed by a literal is greedy: on a text without newline it stops at the
  last occurrence of the literal, and fails when there is none.
\<close>

lemma dotStarThen_absent: "c \<notin> set s \<Longrightarrow> dotStarThen c acc s = None"
  by (induction s arbitrary: acc) auto

lemma dotStarThen_greedy:
  "c \<notin> set r \<Longrightarrow> CHR 0x0A \<notin> set t \<Longrightarrow> dotStarThen c acc (t @ c # r) = Some (acc @ t)"
proof (induction t arbitrary: acc)
  case Nil
  then show ?case by (simp add: dotStarThen_absent)
next
  case (Cons x t)
  then have "dotStarThen c (acc @ [x]) (t @ c # r) = Some ((acc @ [x]) @ t)"
    by simp
  with Cons.prems show ?case by auto
qed







section \<open>The stats-summary parser\<close>

text \<open>
  C1. A non-empty line with fewer than two white-space separated fields should be skipped
  and the following lines parsed. The code reads \<open>kv[1]\<close> unchecked: on the reply
  \<open>zk_foo\<close>, newline, \<open>zk_avg_latency 0\<close> the call panics with an index out of
  range at the first line, after \<open>zk_up\<close>, and the second line is never parsed.
\<close>

theorem gatherMntrResult_one_field_line_panics:
  "slist (fst (gatherMntrResult pf (c\<lparr>read_data := ''zk_foo'' @ [CHR 0x0A] @ ''zk_avg_latency 0''\<rparr>) g st))
     = NewSample ''zk_up'' (IntV 1) [g] # slist st
   \<and> snd (gatherMntrResult pf (c\<lparr>read_data := ''zk_foo'' @ [CHR 0x0A] @ ''zk_avg_latency 0''\<rparr>) g st)
     = Some (IndexOutOfRange 1 1)"
  by (simp add: gatherMntrResult_unfold Let_def cmdNotExecutedSffx_def
        instanceNotServingMessage_def gatherMntrResult_line_def Fields_def spaceLen_def asciiSpace_def
        PushFront_def sendZookeeperCmd_slist)

text \<open>
  C2, as the code has it. For the line \<open>foo{bar="baz",qux="quux"} 5\<close> the parser emits,
  after \<open>zk_up\<close>, one sample whose name is the whole key, braces and labels included,
  whose value is the text \<open>5\<close>, and whose extra tags map \<open>bar\<close> and \<open>qux\<close> to the
  values with their double quotes.
\<close>

theorem gatherMntrResult_labelled_key:
  \<open>slist (fst (gatherMntrResult pf (c\<lparr>read_data := ''foo{bar="baz",qux="quux"} 5''\<rparr>) g st))
     = NewSample ''foo{bar="baz",qux="quux"}'' (StrV ''5'')
         [g, [''bar'' \<mapsto> ''"baz"'', ''qux'' \<mapsto> ''"quux"'']]
       # NewSample ''zk_up'' (IntV 1) [g] # slist st
   \<and> snd (gatherMntrResult pf (c\<lparr>read_data := ''foo{bar="baz",qux="quux"} 5''\<rparr>) g st) = None\<close>
  by (simp add: gatherMntrResult_unfold Let_def cmdNotExecutedSffx_def
        instanceNotServingMessage_def gatherMntrResult_line_def Fields_def spaceLen_def asciiSpace_def
        isDigit_def Atoi_def isDecimal_def metricNameReplacer_def parseLabels_def
        PushFront_def sendZookeeperCmd_slist)

text \<open>
  C2 as stated fails: at that input no emitted sample is named \<open>foo\<close>, and no tag map
  of an emitted sample gives \<open>bar\<close> the value \<open>baz\<close> without quotes.
\<close>

theorem gatherMntrResult_labelled_key_not_foo:
  \<open>''foo'' \<notin> set (map metric (slist (fst (gatherMntrResult (\<lambda>s. False)
          \<lparr>write_err = None, read_data = ''foo{bar="baz",qux="quux"} 5'',
           read_err = None, RemoteAddr = ''10.0.0.1:2181''\<rparr> Map.empty \<lparr>slist = [], logs = []\<rparr>))))
   \<and> Some ''baz'' \<notin> set (map (\<lambda>m. m ''bar'') (concat (map labels (slist (fst (gatherMntrResult (\<lambda>s. False)
          \<lparr>write_err = None, read_data = ''foo{bar="baz",qux="quux"} 5'',
           read_err = None, RemoteAddr = ''10.0.0.1:2181''\<rparr> Map.empty \<lparr>slist = [], logs = []\<rparr>))))))\<close>
  by (simp add: gatherMntrResult_unfold Let_def cmdNotExecutedSffx_def
        instanceNotServingMessage_def gatherMntrResult_line_def Fields_def spaceLen_def asciiSpace_def
        isDigit_def Atoi_def isDecimal_def metricNameReplacer_def parseLabels_def
        PushFront_def NewSample_def sendZookeeperCmd_slist)

text \<open>
  C3, as the code has it. When the first line of the reply is the not-serving banner, the
  parser emits exactly two measurements, \<open>zk_up\<close> valued 1 and then
  \<open>zk_server_leader\<close> valued 1, writes no log line of its own, and parses no line.
\<close>

theorem gatherMntrResult_not_serving:
  assumes "hd (Split (read_data c) (CHR 0x0A)) = instanceNotServingMessage"
  shows "slist (fst (gatherMntrResult pf c g st))
           = NewSample ''zk_server_leader'' (IntV 1) [g] # NewSample ''zk_up'' (IntV 1) [g] # slist st
         \<and> logs (fst (gatherMntrResult pf c g st)) = logs (snd (sendZookeeperCmd c ''mntr'' st))
         \<and> snd (gatherMntrResult pf c g st) = None"
proof -
  have "\<not> Contains instanceNotServingMessage cmdNotExecutedSffx"
    by (simp add: instanceNotServingMessage_def cmdNotExecutedSffx_def)
  with assms show ?thesis
    by (simp add: gatherMntrResult_unfold Let_def PushFront_def sendZookeeperCmd_slist)
qed

text \<open>The banner followed by a stats line: the stats line is not parsed.\<close>

theorem gatherMntrResult_not_serving_witness:
  "hd (Split (read_data \<lparr>write_err = None,
         read_data = instanceNotServingMessage @ [CHR 0x0A] @ ''zk_avg_latency 0'',
         read_err = None, RemoteAddr = ''10.0.0.1:2181''\<rparr>) (CHR 0x0A)) = instanceNotServingMessage
   \<and> slist (fst (gatherMntrResult (\<lambda>s. False)
        \<lparr>write_err = None,
         read_data = instanceNotServingMessage @ [CHR 0x0A] @ ''zk_avg_latency 0'',
         read_err = None, RemoteAddr = ''10.0.0.1:2181''\<rparr> Map.empty \<lparr>slist = [], logs = []\<rparr>))
      = [NewSample ''zk_server_leader'' (IntV 1) [Map.empty], NewSample ''zk_up'' (IntV 1) [Map.empty]]"
proof -
  have h: "hd (Split (read_data \<lparr>write_err = None,
         read_data = instanceNotServingMessage @ [CHR 0x0A] @ ''zk_avg_latency 0'',
         read_err = None, RemoteAddr = ''10.0.0.1:2181''\<rparr>) (CHR 0x0A)) = instanceNotServingMessage"
    by (simp add: instanceNotServingMessage_def)
  show ?thesis
    using h gatherMntrResult_not_serving [OF h, of "\<lambda>s. False" Map.empty "\<lparr>slist = [], logs = []\<rparr>"]
    by simp
qed

text \<open>
  C3 as stated fails: on the banner alone the emitted list is not the single sample
  \<open>zk_server_leader\<close>.
\<close>

theorem gatherMntrResult_not_serving_two_samples:
  "slist (fst (gatherMntrResult (\<lambda>s. False)
        \<lparr>write_err = None, read_data = instanceNotServingMessage,
         read_err = None, RemoteAddr = ''10.0.0.1:2181''\<rparr> Map.empty \<lparr>slist = [], logs = []\<rparr>))
      \<noteq> [NewSample ''zk_server_leader'' (IntV 1) [Map.empty]]"
  by (simp add: gatherMntrResult_unfold Let_def PushFront_def sendZookeeperCmd_slist
       instanceNotServingMessage_def cmdNotExecutedSffx_def)

text \<open>
  C5. When the first line of the reply contains the not-in-whitelist banner, the parser
  emits exactly one measurement, \<open>zk_up\<close> valued 0, does not panic, and logs the
  command-not-allowed warning for \<open>mntr\<close> and the remote address as its last line;
  none of the lines the call adds to the log is the line of a failed connection attempt,
  whatever the host and the error.
\<close>

theorem gatherMntrResult_not_allowed:
  assumes "Contains (hd (Split (read_data c) (CHR 0x0A))) cmdNotExecutedSffx"
  shows "slist (fst (gatherMntrResult pf c g st)) = NewSample ''zk_up'' (IntV 0) [g] # slist st
         \<and> logs (fst (gatherMntrResult pf c g st))
             = logs (snd (sendZookeeperCmd c ''mntr'' st)) @ [LogCommandNotAllowed ''mntr'' (RemoteAddr c)]
         \<and> LogConnectError host err \<notin> set (drop (length (logs st)) (logs (fst (gatherMntrResult pf c g st))))
         \<and> snd (gatherMntrResult pf c g st) = None"
  using assms
  by (simp add: gatherMntrResult_unfold Let_def PushFront_def logPrint_def sendZookeeperCmd_slist
        sendZookeeperCmd_logs split: option.splits)

text \<open>The reply of a server whose whitelist lacks \<open>mntr\<close>.\<close>

theorem gatherMntrResult_not_allowed_witness:
  "Contains (hd (Split (read_data \<lparr>write_err = None,
         read_data = ''mntr '' @ cmdNotExecutedSffx @ [CHR 0x0A],
         read_err = None, RemoteAddr = ''10.0.0.1:2181''\<rparr>) (CHR 0x0A))) cmdNotExecutedSffx
   \<and> slist (fst (gatherMntrResult (\<lambda>s. False)
        \<lparr>write_err = None, read_data = ''mntr '' @ cmdNotExecutedSffx @ [CHR 0x0A],
         read_err = None, RemoteAddr = ''10.0.0.1:2181''\<rparr> Map.empty \<lparr>slist = [], logs = []\<rparr>))
      = [NewSample ''zk_up'' (IntV 0) [Map.empty]]
   \<and> logs (fst (gatherMntrResult (\<lambda>s. False)
        \<lparr>write_err = None, read_data = ''mntr '' @ cmdNotExecutedSffx @ [CHR 0x0A],
         read_err = None, RemoteAddr = ''10.0.0.1:2181''\<rparr> Map.empty \<lparr>slist = [], logs = []\<rparr>))
      = [LogCommandNotAllowed ''mntr'' ''10.0.0.1:2181'']"
proof -
  have h: "Contains (hd (Split (read_data \<lparr>write_err = None,
         read_data = ''mntr '' @ cmdNotExecutedSffx @ [CHR 0x0A],
         read_err = None, RemoteAddr = ''10.0.0.1:2181''\<rparr>) (CHR 0x0A))) cmdNotExecutedSffx"
    by (simp add: cmdNotExecutedSffx_def)
  show ?thesis
    using h gatherMntrResult_not_allowed [OF h, of "\<lambda>s. False" Map.empty "\<lparr>slist = [], logs = []\<rparr>"]
    by (simp add: sendZookeeperCmd_logs)
qed



text \<open>
  C8, as the code has it. For a reply that matches neither banner and whose non-empty
  lines all have two fields or more: each line whose first field is \<open>zk_server_state\<close>
  makes the parser emit \<open>zk_server_leader\<close>, valued 1 when the second field is
  \<open>leader\<close> and 0 otherwise, and the parse ends without a panic.
\<close>

theorem gatherMntrResult_server_state:
  assumes "\<not> Contains (hd (Split (read_data c) (CHR 0x0A))) cmdNotExecutedSffx"
    and "hd (Split (read_data c) (CHR 0x0A)) \<noteq> instanceNotServingMessage"
    and "\<forall>l\<in>set (Split (read_data c) (CHR 0x0A)). l = [] \<or> 2 \<le> length (Fields l)"
    and "l \<in> set (Split (read_data c) (CHR 0x0A))"
    and "Fields l = ''zk_server_state'' # value # others"
  shows "NewSample ''zk_server_leader'' (IntV (if value = ''leader'' then 1 else 0)) [g]
           \<in> set (slist (fst (gatherMntrResult pf c g st)))
         \<and> snd (gatherMntrResult pf c g st) = None"
  using assms(1,2) gatherMntrResult_loop_server_state [OF assms(3,4,5)]
    gatherMntrResult_loop_complete [OF assms(3)]
  by (simp add: gatherMntrResult_unfold Let_def)

text \<open>A two-line reply of a leader.\<close>

theorem gatherMntrResult_server_state_witness:
  "NewSample ''zk_server_leader'' (IntV 1) [Map.empty]
     \<in> set (slist (fst (gatherMntrResult (\<lambda>s. False)
          \<lparr>write_err = None,
           read_data = ''zk_version 3.5.2-beta'' @ [CHR 0x0A] @ ''zk_server_state leader'' @ [CHR 0x0A],
           read_err = None, RemoteAddr = ''10.0.0.1:2181''\<rparr> Map.empty \<lparr>slist = [], logs = []\<rparr>)))
   \<and> snd (gatherMntrResult (\<lambda>s. False)
          \<lparr>write_err = None,
           read_data = ''zk_version 3.5.2-beta'' @ [CHR 0x0A] @ ''zk_server_state leader'' @ [CHR 0x0A],
           read_err = None, RemoteAddr = ''10.0.0.1:2181''\<rparr> Map.empty \<lparr>slist = [], logs = []\<rparr>) = None"
proof -
  let ?c = "\<lparr>write_err = None,
           read_data = ''zk_version 3.5.2-beta'' @ [CHR 0x0A] @ ''zk_server_state leader'' @ [CHR 0x0A],
           read_err = None, RemoteAddr = ''10.0.0.1:2181''\<rparr>"
  have sp: "Split (read_data ?c) (CHR 0x0A) = [''zk_version 3.5.2-beta'', ''zk_server_state leader'', []]"
    by simp
  have f1: "Fields ''zk_version 3.5.2-beta'' = [''zk_version'', ''3.5.2-beta'']"
    by (simp add: Fields_def spaceLen_def asciiSpace_def)
  have f2: "Fields ''zk_server_state leader'' = ''zk_server_state'' # ''leader'' # []"
    by (simp add: Fields_def spaceLen_def asciiSpace_def)
  have h1: "\<not> Contains (hd (Split (read_data ?c) (CHR 0x0A))) cmdNotExecutedSffx"
    unfolding sp by (simp add: cmdNotExecutedSffx_def)
  have h2: "hd (Split (read_data ?c) (CHR 0x0A)) \<noteq> instanceNotServingMessage"
    unfolding sp by (simp add: instanceNotServingMessage_def)
  have h3: "\<forall>l\<in>set (Split (read_data ?c) (CHR 0x0A)). l = [] \<or> 2 \<le> length (Fields l)"
    unfolding sp by (simp add: f1 f2)
  have h4: "''zk_server_state leader'' \<in> set (Split (read_data ?c) (CHR 0x0A))"
    unfolding sp by simp
  show ?thesis
    using gatherMntrResult_server_state [OF h1 h2 h3 h4 f2, of Map.empty "\<lambda>s. False" "\<lparr>slist = [], logs = []\<rparr>"]
    by simp
qed

text \<open>
  C8 as stated fails twice: the key \<open>server_state\<close>, without the prefix \<open>zk_\<close>, is an
  ordinary metric key and its non-numeric value is skipped; and behind a one-field line
  the line \<open>zk_server_state leader\<close> is never reached.
\<close>

theorem gatherMntrResult_server_state_unprefixed_key:
  "''zk_server_leader'' \<notin> set (map metric (slist (fst (gatherMntrResult (\<lambda>s. False)
          \<lparr>write_err = None, read_data = ''server_state leader'',
           read_err = None, RemoteAddr = ''10.0.0.1:2181''\<rparr> Map.empty \<lparr>slist = [], logs = []\<rparr>))))
   \<and> ''zk_server_leader'' \<notin> set (map metric (slist (fst (gatherMntrResult (\<lambda>s. False)
          \<lparr>write_err = None, read_data = ''zk_foo'' @ [CHR 0x0A] @ ''zk_server_state leader'',
           read_err = None, RemoteAddr = ''10.0.0.1:2181''\<rparr> Map.empty \<lparr>slist = [], logs = []\<rparr>))))"
  by (simp add: gatherMntrResult_unfold Let_def cmdNotExecutedSffx_def
        instanceNotServingMessage_def gatherMntrResult_line_def Fields_def spaceLen_def asciiSpace_def
        isDigit_def Atoi_def isDecimal_def PushFront_def logPrint_def NewSample_def
        sendZookeeperCmd_slist)

text \<open>
  C10. For the empty reply the stats-summary parser emits exactly one measurement,
  \<open>zk_up\<close> valued 1, and does not panic. The connection \<open>c\<close> is arbitrary but for
  the bytes read: a transport that failed and delivered nothing is reported as service up
  as well.
\<close>

theorem gatherMntrResult_empty_reply:
  "slist (fst (gatherMntrResult pf (c\<lparr>read_data := ''''\<rparr>) g st)) = NewSample ''zk_up'' (IntV 1) [g] # slist st
   \<and> snd (gatherMntrResult pf (c\<lparr>read_data := ''''\<rparr>) g st) = None"
  by (simp add: gatherMntrResult_unfold Let_def cmdNotExecutedSffx_def instanceNotServingMessage_def
        PushFront_def sendZookeeperCmd_slist)

section \<open>The liveness parser\<close>

text \<open>
  C6. The liveness parser emits exactly \<open>zk_ruok\<close>, valued 1 when the reply is the
  text \<open>imok\<close> and 0 for any other reply, and among the log lines of the call the
  command-not-allowed warning for \<open>ruok\<close> appears exactly when the reply contains the
  not-in-whitelist banner.
\<close>

theorem gatherRuokResult_liveness:
  "slist (gatherRuokResult c g st)
     = NewSample ''zk_ruok'' (IntV (if read_data c = ''imok'' then 1 else 0)) [g] # slist st
   \<and> logs (gatherRuokResult c g st)
       = logs (snd (sendZookeeperCmd c ''ruok'' st))
         @ (if Contains (read_data c) cmdNotExecutedSffx
            then [LogCommandNotAllowed ''ruok'' (RemoteAddr c)] else [])
   \<and> (LogCommandNotAllowed ''ruok'' (RemoteAddr c)
         \<in> set (drop (length (logs st)) (logs (gatherRuokResult c g st)))
        \<longleftrightarrow> Contains (read_data c) cmdNotExecutedSffx)"
proof -
  obtain st1 where eq: "sendZookeeperCmd c ''ruok'' st = (read_data c, st1)"
    using sendZookeeperCmd_reply [of c "''ruok''" st] by (cases "sendZookeeperCmd c ''ruok'' st") simp
  have sl: "slist st1 = slist st" using sendZookeeperCmd_slist [of c "''ruok''" st] eq by simp
  have lg: "logs st1 = logs st @ (case write_err c of Some err \<Rightarrow> [LogExecFailed ''ruok''] | None \<Rightarrow> [])
             @ (case read_err c of Some err \<Rightarrow> [LogReadFailed ''ruok'' (RemoteAddr c) err] | None \<Rightarrow> [])"
    using sendZookeeperCmd_logs [of c "''ruok''" st] eq by simp
  have nb: "\<not> Contains ''imok'' cmdNotExecutedSffx" by (simp add: cmdNotExecutedSffx_def)
  show ?thesis
    using nb by (auto simp: gatherRuokResult_def eq Let_def PushFront_def logPrint_def sl lg split: option.splits)
qed

section \<open>The command transport\<close>

text \<open>
  C4, as the code has it. \<open>sendZookeeperCmd\<close> returns the bytes read and nothing else,
  whatever failed; it emits no measurement; a failed write and a failed read each add one
  error line to the log.
\<close>

theorem sendZookeeperCmd_returns_bytes_read:
  "fst (sendZookeeperCmd c cmd st) = read_data c
   \<and> slist (snd (sendZookeeperCmd c cmd st)) = slist st
   \<and> logs (snd (sendZookeeperCmd c cmd st)) =
       logs st @ (case write_err c of Some err \<Rightarrow> [LogExecFailed cmd] | None \<Rightarrow> [])
               @ (case read_err c of Some err \<Rightarrow> [LogReadFailed cmd (RemoteAddr c) err] | None \<Rightarrow> [])"
  by (simp add: sendZookeeperCmd_reply sendZookeeperCmd_slist sendZookeeperCmd_logs)

text \<open>
  C4 as stated fails: a transport whose write and read both failed without a byte read
  returns the same value as a healthy connection with an empty reply.
\<close>

theorem sendZookeeperCmd_failure_looks_empty:
  "fst (sendZookeeperCmd \<lparr>write_err = Some ''broken pipe'', read_data = '''',
          read_err = Some ''connection reset by peer'', RemoteAddr = ''10.0.0.1:2181''\<rparr>
          ''mntr'' \<lparr>slist = [], logs = []\<rparr>)
   = fst (sendZookeeperCmd \<lparr>write_err = None, read_data = '''',
          read_err = None, RemoteAddr = ''10.0.0.1:2181''\<rparr>
          ''mntr'' \<lparr>slist = [], logs = []\<rparr>)"
  by (simp add: sendZookeeperCmd_def Let_def)

section \<open>The host task\<close>

text \<open>
  C9. Whatever happens in the task, a panic of the parser included, the sample
  \<open>zk_scrape_use_seconds\<close> is the last one pushed. When the first connection attempt
  fails, the task emits \<open>zk_up\<close> valued 0 and the elapsed time and nothing else, logs
  the connection error, and ends: the result does not depend on the second connection.
\<close>

theorem gatherOnce_elapsed_and_connect_failure:
  "(\<exists>rest. slist (fst (gatherOnce pf ins net1 net2 use zkHost st))
       = NewSample ''zk_scrape_use_seconds'' (FloatV use) [gatherOnce_tags ins zkHost] # rest)
   \<and> (\<forall>err. ZkConnect ins net1 zkHost = Inl err \<longrightarrow>
         gatherOnce pf ins net1 net2 use zkHost st
           = (st\<lparr>slist := NewSample ''zk_scrape_use_seconds'' (FloatV use) [gatherOnce_tags ins zkHost]
                       # NewSample ''zk_up'' (IntV 0) [gatherOnce_tags ins zkHost] # slist st,
                 logs := logs st @ [LogConnectError zkHost err]\<rparr>, None))"
  by (auto simp: gatherOnce_def Let_def PushFront_def logPrint_def split: sum.splits prod.splits option.splits)

text \<open>A host whose name does not resolve.\<close>

theorem gatherOnce_elapsed_and_connect_failure_witness:
  "ZkConnect \<lparr>Addresses = ''zk1:2181'', Timeout = 10, ClusterName = ''prod'', Labels = Map.empty,
              UseTLS = False, TLSConfig_err = None\<rparr>
      \<lparr>ResolveTCPAddr = (\<lambda>h. Inl ''no such host''), Dial = (\<lambda>a. Inl ''connection refused''),
       DialTLS = (\<lambda>a. Inl ''connection refused'')\<rparr> ''zk1:2181''
     = Inl (ResolveFailed ''prod'' ''zk1:2181'' ''no such host'')
   \<and> gatherOnce (\<lambda>s. False)
       \<lparr>Addresses = ''zk1:2181'', Timeout = 10, ClusterName = ''prod'', Labels = Map.empty,
              UseTLS = False, TLSConfig_err = None\<rparr>
       \<lparr>ResolveTCPAddr = (\<lambda>h. Inl ''no such host''), Dial = (\<lambda>a. Inl ''connection refused''),
       DialTLS = (\<lambda>a. Inl ''connection refused'')\<rparr>
       \<lparr>ResolveTCPAddr = (\<lambda>h. Inl ''no such host''), Dial = (\<lambda>a. Inl ''connection refused''),
       DialTLS = (\<lambda>a. Inl ''connection refused'')\<rparr> 3 ''zk1:2181'' \<lparr>slist = [], logs = []\<rparr>
     = (\<lparr>slist = [NewSample ''zk_scrape_use_seconds'' (FloatV 3)
                      [gatherOnce_tags \<lparr>Addresses = ''zk1:2181'', Timeout = 10, ClusterName = ''prod'',
                         Labels = Map.empty, UseTLS = False, TLSConfig_err = None\<rparr> ''zk1:2181''],
                   NewSample ''zk_up'' (IntV 0)
                      [gatherOnce_tags \<lparr>Addresses = ''zk1:2181'', Timeout = 10, ClusterName = ''prod'',
                         Labels = Map.empty, UseTLS = False, TLSConfig_err = None\<rparr> ''zk1:2181'']],
         logs = [LogConnectError ''zk1:2181'' (ResolveFailed ''prod'' ''zk1:2181'' ''no such host'')]\<rparr>, None)"
proof -
  have h: "ZkConnect \<lparr>Addresses = ''zk1:2181'', Timeout = 10, ClusterName = ''prod'', Labels = Map.empty,
              UseTLS = False, TLSConfig_err = None\<rparr>
      \<lparr>ResolveTCPAddr = (\<lambda>h. Inl ''no such host''), Dial = (\<lambda>a. Inl ''connection refused''),
       DialTLS = (\<lambda>a. Inl ''connection refused'')\<rparr> ''zk1:2181''
     = Inl (ResolveFailed ''prod'' ''zk1:2181'' ''no such host'')"
    by (simp add: ZkConnect_def)
  show ?thesis
    using h gatherOnce_elapsed_and_connect_failure
      [of "\<lambda>s. False" "\<lparr>Addresses = ''zk1:2181'', Timeout = 10, ClusterName = ''prod'', Labels = Map.empty,
              UseTLS = False, TLSConfig_err = None\<rparr>"
          "\<lparr>ResolveTCPAddr = (\<lambda>h. Inl ''no such host''), Dial = (\<lambda>a. Inl ''connection refused''),
       DialTLS = (\<lambda>a. Inl ''connection refused'')\<rparr>"
          "\<lparr>ResolveTCPAddr = (\<lambda>h. Inl ''no such host''), Dial = (\<lambda>a. Inl ''connection refused''),
       DialTLS = (\<lambda>a. Inl ''connection refused'')\<rparr>" 3 "''zk1:2181''" "\<lparr>slist = [], logs = []\<rparr>"]
    by simp
qed

end
